theory Spec2Isabelle
  imports Complex_Main
begin

section \<open>Conventions of the embedding\<close>

text \<open>
  The library (\<^verbatim>\<open>src/index.js\<close>) is a set of independent classes, each holding a few
  fields and a few event handlers. Every class is a record of its fields, and every method
  is a function from the old object to the new object. A method that calls to the outside
  (a user callback, the style update, the frame request) also returns the list of those
  calls, in the order the source makes them.

  \<^item> \<^verbatim>\<open>Date.now()\<close> is an argument \<open>now\<close> of the handler that reads it: an integer
    number of milliseconds. Differences and comparisons of such times are exact.
  \<^item> An object \<^verbatim>\<open>{x, y}\<close> is a pair.
  \<^item> The numbers of an event (\<^verbatim>\<open>clientX\<close>, \<^verbatim>\<open>clientY\<close>) are of a type \<open>'n\<close> that the event
    record leaves open. \<open>MovementTracker\<close> and \<open>CustomCursor\<close> compute with them; there
    \<open>'n\<close> stays abstract and the arithmetic of JavaScript is an argument of each handler
    (section \<open>Arithmetic\<close>). \<open>DragAndDrop\<close> only subtracts two coordinates; there the
    coordinates are reals and the subtraction is the exact one.
  \<^item> The callbacks of \<open>ClickCounter\<close> and \<open>MovementTracker\<close> are observers: a field that
    holds one is a boolean, whether the callback is truthy; the model records that it was
    called and with which arguments, and takes it not to call back into the object. The
    callbacks of \<open>DragAndDrop\<close> are modelled with what they do to the tracker.
\<close>

record 'n MouseEvent =
  clientX :: 'n
  clientY :: 'n
  button :: int

section \<open>Arithmetic\<close>

text \<open>
  The operations on numbers that the source applies, over a type \<open>'n\<close> of numbers. For
  the program as it runs, \<open>'n\<close> is the IEEE doubles, signed zeros, infinities and NaN
  included, and the fields are JavaScript's operations on them. The definitions of the
  handlers and the theorems about them take such a record as an argument and assume
  nothing of it.

  \<^item> \<open>num_lit i\<close> is the number with the integer value \<open>i\<close> (the literals \<^verbatim>\<open>0\<close> and \<^verbatim>\<open>180\<close>,
    and a difference of two times);
  \<^item> \<open>lit_0_3\<close> is the literal \<^verbatim>\<open>0.3\<close>;
  \<^item> \<open>num_add\<close>, \<open>num_sub\<close>, \<open>num_mul\<close>, \<open>num_div\<close> are \<^verbatim>\<open>+\<close>, \<^verbatim>\<open>-\<close>, \<^verbatim>\<open>*\<close>, \<^verbatim>\<open>/\<close>, and
    \<open>num_square x\<close> is \<^verbatim>\<open>x ** 2\<close>;
  \<^item> \<open>Math_sqrt\<close>, \<open>Math_atan2\<close>, \<open>Math_PI\<close> are \<^verbatim>\<open>Math.sqrt\<close>, \<^verbatim>\<open>Math.atan2\<close>, \<^verbatim>\<open>Math.PI\<close>.
\<close>

record 'n arith =
  num_lit :: "int \<Rightarrow> 'n"
  lit_0_3 :: 'n
  num_add :: "'n \<Rightarrow> 'n \<Rightarrow> 'n"
  num_sub :: "'n \<Rightarrow> 'n \<Rightarrow> 'n"
  num_mul :: "'n \<Rightarrow> 'n \<Rightarrow> 'n"
  num_div :: "'n \<Rightarrow> 'n \<Rightarrow> 'n"
  num_square :: "'n \<Rightarrow> 'n"
  Math_sqrt :: "'n \<Rightarrow> 'n"
  Math_atan2 :: "'n \<Rightarrow> 'n \<Rightarrow> 'n"
  Math_PI :: 'n

text \<open>
  One arithmetic to evaluate examples in: the exact one over the reals, which the doubles
  approximate. It is not the arithmetic of the program: it has one zero and no rounding.
  It is used below only on inputs where every intermediate value is a small integer or is
  the value the claim names, and for the angle function at \<open>(0, 10)\<close>, \<open>(10, -10)\<close> and
  \<open>(10, 0)\<close>. \<open>exact_atan2 y x\<close> is the angle in \<open>(-\<pi>, \<pi>]\<close> of the point \<open>(x, y)\<close>, and
  \<open>0\<close> at the origin.
\<close>

definition exact_atan2 :: "real \<Rightarrow> real \<Rightarrow> real" where
  "exact_atan2 y x =
     (if 0 < x then arctan (y / x)
      else if x < 0 then (if 0 \<le> y then arctan (y / x) + pi else arctan (y / x) - pi)
      else if 0 < y then pi / 2
      else if y < 0 then - (pi / 2)
      else 0)"

definition exact :: "real arith" where
  "exact =
     \<lparr>num_lit = real_of_int, lit_0_3 = 3 / 10,
      num_add = (\<lambda>a b. a + b), num_sub = (\<lambda>a b. a - b),
      num_mul = (\<lambda>a b. a * b), num_div = (\<lambda>a b. a / b),
      num_square = (\<lambda>a. a\<^sup>2),
      Math_sqrt = sqrt, Math_atan2 = exact_atan2, Math_PI = pi\<rparr>"

section \<open>DragAndDrop\<close>

type_synonym point = "real \<times> real"

text \<open>
  The listeners the tracker registers, by target and event name. \<^verbatim>\<open>addEventListener\<close>
  with a handler that is already registered does nothing and \<^verbatim>\<open>removeEventListener\<close> of
  one that is not registered does nothing, so the registrations are a set.
\<close>

datatype dd_listener = Element_mousedown | Document_mousemove | Document_mouseup

datatype dd_call =
  OnStart "real MouseEvent" point
  | OnDrag "real MouseEvent" point point
  | OnEnd "real MouseEvent" point point

record DragAndDrop =
  isDragging :: bool
  startPos :: point
  currentPos :: point
  listeners :: "dd_listener set"

text \<open>
  The object \<^verbatim>\<open>this.callbacks\<close>. A callback runs in the middle of a handler and has the
  tracker in its reach: it may call \<^verbatim>\<open>stop()\<close> or \<^verbatim>\<open>start()\<close>, a handler, or write a field.
  So a callback is modelled by what it does: given its arguments, a function from the
  tracker as it is when the callback is entered to the tracker as it is when the callback
  returns, with the calls to callbacks made in between. A field is \<open>None\<close> when the
  callback is absent. The callbacks are an argument of the handlers beside the tracker,
  not a field of its record; no method assigns \<^verbatim>\<open>this.callbacks\<close>. A callback that throws
  is not modelled.
\<close>

type_synonym dd_effect = "DragAndDrop \<Rightarrow> DragAndDrop \<times> dd_call list"

record DragAndDrop_callbacks =
  onStart :: "(real MouseEvent \<Rightarrow> point \<Rightarrow> dd_effect) option"
  onDrag :: "(real MouseEvent \<Rightarrow> point \<Rightarrow> point \<Rightarrow> dd_effect) option"
  onEnd :: "(real MouseEvent \<Rightarrow> point \<Rightarrow> point \<Rightarrow> dd_effect) option"

text \<open>Three callbacks that are present and leave the tracker alone.\<close>

definition observers :: DragAndDrop_callbacks where
  "observers =
     \<lparr>onStart = Some (\<lambda>event pos s. (s, [])),
      onDrag = Some (\<lambda>event pos delta s. (s, [])),
      onEnd = Some (\<lambda>event pos delta s. (s, []))\<rparr>"

definition DragAndDrop_start :: "DragAndDrop \<Rightarrow> DragAndDrop \<times> dd_call list" where
  "DragAndDrop_start s = (s\<lparr>listeners := insert Element_mousedown (listeners s)\<rparr>, [])"

definition DragAndDrop_new :: DragAndDrop where
  "DragAndDrop_new =
     fst (DragAndDrop_start
       \<lparr>isDragging = False, startPos = (0, 0), currentPos = (0, 0), listeners = {}\<rparr>)"

definition DragAndDrop_handleMouseDown ::
  "DragAndDrop_callbacks \<Rightarrow> real MouseEvent \<Rightarrow> DragAndDrop \<Rightarrow> DragAndDrop \<times> dd_call list" where
  "DragAndDrop_handleMouseDown cbs event s =
     (let s1 = s\<lparr>isDragging := True\<rparr>;
          s2 = s1\<lparr>startPos := (clientX event, clientY event)\<rparr>;
          s3 = s2\<lparr>currentPos := startPos s2\<rparr>;
          (s4, calls) =
            (case onStart cbs of
               None \<Rightarrow> (s3, [])
             | Some f \<Rightarrow>
                 let (s', nested) = f event (startPos s3) s3
                 in (s', OnStart event (startPos s3) # nested));
          s5 = s4\<lparr>listeners := insert Document_mousemove (listeners s4)\<rparr>;
          s6 = s5\<lparr>listeners := insert Document_mouseup (listeners s5)\<rparr>
      in (s6, calls))"

definition DragAndDrop_handleMouseMove ::
  "DragAndDrop_callbacks \<Rightarrow> real MouseEvent \<Rightarrow> DragAndDrop \<Rightarrow> DragAndDrop \<times> dd_call list" where
  "DragAndDrop_handleMouseMove cbs event s =
     (if \<not> isDragging s then (s, [])
      else
        let s1 = s\<lparr>currentPos := (clientX event, clientY event)\<rparr>;
            delta = (fst (currentPos s1) - fst (startPos s1),
                     snd (currentPos s1) - snd (startPos s1))
        in case onDrag cbs of
             None \<Rightarrow> (s1, [])
           | Some f \<Rightarrow>
               let (s', nested) = f event (currentPos s1) delta s1
               in (s', OnDrag event (currentPos s1) delta # nested))"

definition DragAndDrop_handleMouseUp ::
  "DragAndDrop_callbacks \<Rightarrow> real MouseEvent \<Rightarrow> DragAndDrop \<Rightarrow> DragAndDrop \<times> dd_call list" where
  "DragAndDrop_handleMouseUp cbs event s =
     (if \<not> isDragging s then (s, [])
      else
        let s1 = s\<lparr>isDragging := False\<rparr>;
            delta = (fst (currentPos s1) - fst (startPos s1),
                     snd (currentPos s1) - snd (startPos s1));
            (s2, calls) =
              (case onEnd cbs of
                 None \<Rightarrow> (s1, [])
               | Some f \<Rightarrow>
                   let (s', nested) = f event (currentPos s1) delta s1
                   in (s', OnEnd event (currentPos s1) delta # nested));
            s3 = s2\<lparr>listeners := listeners s2 - {Document_mousemove}\<rparr>;
            s4 = s3\<lparr>listeners := listeners s3 - {Document_mouseup}\<rparr>
        in (s4, calls))"

definition DragAndDrop_stop :: "DragAndDrop \<Rightarrow> DragAndDrop \<times> dd_call list" where
  "DragAndDrop_stop s =
     (let s1 = s\<lparr>listeners := listeners s - {Element_mousedown}\<rparr>;
          s2 = s1\<lparr>listeners := listeners s1 - {Document_mousemove}\<rparr>;
          s3 = s2\<lparr>listeners := listeners s2 - {Document_mouseup}\<rparr>
      in (s3, []))"

text \<open>
  The host's side of the listener interface: an event of a given kind reaches the handler
  registered for it, and reaches nothing when that listener is not registered. A press is a
  \<^verbatim>\<open>mousedown\<close> on the element; moves and releases are the document's \<^verbatim>\<open>mousemove\<close> and
  \<^verbatim>\<open>mouseup\<close>.
\<close>

datatype dd_input = Press "real MouseEvent" | Move "real MouseEvent" | Release "real MouseEvent"

fun DragAndDrop_dispatch ::
  "DragAndDrop_callbacks \<Rightarrow> dd_input \<Rightarrow> DragAndDrop \<Rightarrow> DragAndDrop \<times> dd_call list" where
  "DragAndDrop_dispatch cbs (Press event) s =
     (if Element_mousedown \<in> listeners s then DragAndDrop_handleMouseDown cbs event s else (s, []))"
| "DragAndDrop_dispatch cbs (Move event) s =
     (if Document_mousemove \<in> listeners s then DragAndDrop_handleMouseMove cbs event s else (s, []))"
| "DragAndDrop_dispatch cbs (Release event) s =
     (if Document_mouseup \<in> listeners s then DragAndDrop_handleMouseUp cbs event s else (s, []))"

text \<open>A sequence of inputs, delivered in order; the calls are collected in order.\<close>

fun DragAndDrop_run ::
  "DragAndDrop_callbacks \<Rightarrow> dd_input list \<Rightarrow> DragAndDrop \<Rightarrow> DragAndDrop \<times> dd_call list" where
  "DragAndDrop_run cbs [] s = (s, [])"
| "DragAndDrop_run cbs (i # is) s =
     (let (s1, calls1) = DragAndDrop_dispatch cbs i s;
          (s2, calls2) = DragAndDrop_run cbs is s1
      in (s2, calls1 @ calls2))"

section \<open>MouseButtons\<close>

record MouseButtons =
  left :: bool
  right :: bool
  middle :: bool

definition MouseButtons_new :: MouseButtons where
  "MouseButtons_new = \<lparr>left = False, right = False, middle = False\<rparr>"

definition MouseButtons_handleMouseDown :: "'n MouseEvent \<Rightarrow> MouseButtons \<Rightarrow> MouseButtons" where
  "MouseButtons_handleMouseDown event s =
     (if button event = 0 then s\<lparr>left := True\<rparr>
      else if button event = 1 then s\<lparr>middle := True\<rparr>
      else if button event = 2 then s\<lparr>right := True\<rparr>
      else s)"

definition MouseButtons_handleMouseUp :: "'n MouseEvent \<Rightarrow> MouseButtons \<Rightarrow> MouseButtons" where
  "MouseButtons_handleMouseUp event s =
     (if button event = 0 then s\<lparr>left := False\<rparr>
      else if button event = 1 then s\<lparr>middle := False\<rparr>
      else if button event = 2 then s\<lparr>right := False\<rparr>
      else s)"

text \<open>
  \<^verbatim>\<open>isPressed(button)\<close> is \<^verbatim>\<open>this.buttons[button] || false\<close>: the flag for one of the three
  own keys, and \<^verbatim>\<open>undefined || false\<close>, that is \<^verbatim>\<open>false\<close>, for a key the object does not
  have. (Keys inherited from \<^verbatim>\<open>Object.prototype\<close>, such as \<^verbatim>\<open>toString\<close>, are not modelled:
  there the source returns the inherited member.)
\<close>

definition isPressed :: "string \<Rightarrow> MouseButtons \<Rightarrow> bool" where
  "isPressed key s =
     (if key = ''left'' then left s
      else if key = ''right'' then right s
      else if key = ''middle'' then middle s
      else False)"

section \<open>MovementTracker\<close>

text \<open>The object handed to the callback: \<^verbatim>\<open>{velocity, speed, angle, position}\<close>.\<close>

record 'n movement_data =
  data_velocity :: "'n \<times> 'n"
  data_speed :: 'n
  data_angle :: 'n
  data_position :: "'n \<times> 'n"

record 'n MovementTracker =
  mt_callback :: bool
  lastPos :: "'n \<times> 'n"
  lastTime :: int
  velocity :: "'n \<times> 'n"

definition MovementTracker_new :: "'n arith \<Rightarrow> int \<Rightarrow> bool \<Rightarrow> 'n MovementTracker" where
  "MovementTracker_new ar now cb =
     \<lparr>mt_callback = cb, lastPos = (num_lit ar 0, num_lit ar 0), lastTime = now,
      velocity = (num_lit ar 0, num_lit ar 0)\<rparr>"

definition MovementTracker_handleMove ::
  "'n arith \<Rightarrow> int \<Rightarrow> 'n MouseEvent \<Rightarrow> 'n MovementTracker
     \<Rightarrow> 'n MovementTracker \<times> 'n movement_data list" where
  "MovementTracker_handleMove ar now event s =
     (let currentTime = now;
          deltaTime = currentTime - lastTime s;
          (s1, calls) =
            (if deltaTime > 0 then
               let deltaX = num_sub ar (clientX event) (fst (lastPos s));
                   deltaY = num_sub ar (clientY event) (snd (lastPos s));
                   s' = s\<lparr>velocity := (num_div ar deltaX (num_lit ar deltaTime),
                                        num_div ar deltaY (num_lit ar deltaTime))\<rparr>;
                   speed = Math_sqrt ar (num_add ar (num_square ar (fst (velocity s')))
                                                    (num_square ar (snd (velocity s'))));
                   angle = num_mul ar (Math_atan2 ar deltaY deltaX)
                                      (num_div ar (num_lit ar 180) (Math_PI ar))
               in (s',
                   if mt_callback s' then
                     [\<lparr>data_velocity = velocity s', data_speed = speed, data_angle = angle,
                       data_position = (clientX event, clientY event)\<rparr>]
                   else [])
             else (s, []));
          s2 = s1\<lparr>lastPos := (clientX event, clientY event)\<rparr>;
          s3 = s2\<lparr>lastTime := currentTime\<rparr>
      in (s3, calls))"

definition getVelocity :: "'n MovementTracker \<Rightarrow> 'n \<times> 'n" where
  "getVelocity s = velocity s"

section \<open>CustomCursor\<close>

text \<open>
  What the follower does to the outside: \<^verbatim>\<open>updateCursor()\<close> writes the current position
  into the cursor element's transform, and \<^verbatim>\<open>requestAnimationFrame(this.update)\<close> asks the
  host for the next tick. The handle the host returns for the request is an argument of
  \<open>CustomCursor_update\<close>.
\<close>

datatype 'n cursor_effect = UpdateCursor "'n \<times> 'n" | RequestAnimationFrame

record 'n CustomCursor =
  smooth :: bool
  offset :: "'n \<times> 'n"
  cursor_currentPos :: "'n \<times> 'n"
  targetPos :: "'n \<times> 'n"
  animationFrame :: "nat option"

definition CustomCursor_handleMove ::
  "'n arith \<Rightarrow> 'n MouseEvent \<Rightarrow> 'n CustomCursor \<Rightarrow> 'n CustomCursor \<times> 'n cursor_effect list" where
  "CustomCursor_handleMove ar event s =
     (let s1 = s\<lparr>targetPos := (num_add ar (clientX event) (fst (offset s)),
                                num_add ar (clientY event) (snd (offset s)))\<rparr>
      in if \<not> smooth s1 then
           let s2 = s1\<lparr>cursor_currentPos := targetPos s1\<rparr>
           in (s2, [UpdateCursor (cursor_currentPos s2)])
         else (s1, []))"

definition CustomCursor_update ::
  "'n arith \<Rightarrow> nat \<Rightarrow> 'n CustomCursor \<Rightarrow> 'n CustomCursor \<times> 'n cursor_effect list" where
  "CustomCursor_update ar handle s =
     (if smooth s then
        let s1 = s\<lparr>cursor_currentPos :=
                     (num_add ar (fst (cursor_currentPos s))
                        (num_mul ar (num_sub ar (fst (targetPos s)) (fst (cursor_currentPos s)))
                           (lit_0_3 ar)),
                      snd (cursor_currentPos s))\<rparr>;
            s2 = s1\<lparr>cursor_currentPos :=
                     (fst (cursor_currentPos s1),
                      num_add ar (snd (cursor_currentPos s1))
                        (num_mul ar (num_sub ar (snd (targetPos s1)) (snd (cursor_currentPos s1)))
                           (lit_0_3 ar)))\<rparr>;
            s3 = s2\<lparr>animationFrame := Some handle\<rparr>
        in (s3, [UpdateCursor (cursor_currentPos s2), RequestAnimationFrame])
      else (s, []))"

section \<open>ClickCounter\<close>

text \<open>
  The value of \<^verbatim>\<open>options.timeWindow\<close>: absent, one of the falsy values, or a number of
  milliseconds. Truthy values that are not numbers are outside the model.
\<close>

datatype timeWindow_option = Absent | JsNull | JsFalse | JsNaN | JsEmptyString | JsNumber int

fun falsy :: "timeWindow_option \<Rightarrow> bool" where
  "falsy (JsNumber n) = (n = 0)"
| "falsy _ = True"

text \<open>\<^verbatim>\<open>options.timeWindow || 2000\<close>\<close>

fun timeWindow_or_default :: "timeWindow_option \<Rightarrow> int" where
  "timeWindow_or_default (JsNumber n) = (if n = 0 then 2000 else n)"
| "timeWindow_or_default _ = 2000"

text \<open>
  \<^verbatim>\<open>getCount()\<close> returns a value, so for this class the calls made to the callback are
  kept in a log beside the fields: \<open>calls\<close> holds, oldest first, the argument pairs
  \<^verbatim>\<open>(this.clicks.length, event)\<close> of every call \<^verbatim>\<open>this.callback(...)\<close> made so far. The log is
  not a field of the source; no method reads it.
\<close>

record 'e ClickCounter =
  timeWindow :: int
  callback :: bool
  clicks :: "int list"
  calls :: "(nat \<times> 'e) list"

definition ClickCounter_new :: "timeWindow_option \<Rightarrow> bool \<Rightarrow> 'e ClickCounter" where
  "ClickCounter_new opt cb =
     \<lparr>timeWindow = timeWindow_or_default opt, callback = cb, clicks = [], calls = []\<rparr>"

definition ClickCounter_handleClick :: "int \<Rightarrow> 'e \<Rightarrow> 'e ClickCounter \<Rightarrow> 'e ClickCounter" where
  "ClickCounter_handleClick now event s =
     (let s1 = s\<lparr>clicks := filter (\<lambda>time. now - time < timeWindow s) (clicks s)\<rparr>;
          s2 = s1\<lparr>clicks := clicks s1 @ [now]\<rparr>
      in if callback s2 then s2\<lparr>calls := calls s2 @ [(length (clicks s2), event)]\<rparr> else s2)"

definition getCount :: "int \<Rightarrow> 'e ClickCounter \<Rightarrow> 'e ClickCounter \<times> nat" where
  "getCount now s =
     (let s1 = s\<lparr>clicks := filter (\<lambda>time. now - time < timeWindow s) (clicks s)\<rparr>
      in (s1, length (clicks s1)))"

definition reset :: "'e ClickCounter \<Rightarrow> 'e ClickCounter" where
  "reset s = s\<lparr>clicks := []\<rparr>"

text \<open>Clicks recorded one after the other, at the given times and with the given events.\<close>

fun record_clicks :: "(int \<times> 'e) list \<Rightarrow> 'e ClickCounter \<Rightarrow> 'e ClickCounter" where
  "record_clicks [] s = s"
| "record_clicks ((now, event) # rest) s =
     record_clicks rest (ClickCounter_handleClick now event s)"

section \<open>Properties of the ClickCounter\<close>

lemma timeWindow_handleClick: "timeWindow (ClickCounter_handleClick now event s) = timeWindow s"
  by (simp add: ClickCounter_handleClick_def Let_def)

lemma timeWindow_record_clicks: "timeWindow (record_clicks cs s) = timeWindow s"
  by (induction cs s rule: record_clicks.induct) (simp_all add: timeWindow_handleClick)

lemma clicks_handleClick:
  "clicks (ClickCounter_handleClick now event s) =
     filter (\<lambda>time. now - time < timeWindow s) (clicks s) @ [now]"
  by (simp add: ClickCounter_handleClick_def Let_def)

lemma calls_handleClick:
  "calls (ClickCounter_handleClick now event s) =
     (if callback s
      then calls s @ [(Suc (length (filter (\<lambda>time. now - time < timeWindow s) (clicks s))), event)]
      else calls s)"
  by (simp add: ClickCounter_handleClick_def Let_def)

lemma timeWindow_new: "timeWindow (ClickCounter_new opt cb) = timeWindow_or_default opt"
  by (simp add: ClickCounter_new_def)

lemma clicks_new: "clicks (ClickCounter_new opt cb) = []"
  by (simp add: ClickCounter_new_def)

lemma callback_new: "callback (ClickCounter_new opt cb) = cb"
  by (simp add: ClickCounter_new_def)

lemma calls_new: "calls (ClickCounter_new opt cb) = []"
  by (simp add: ClickCounter_new_def)

lemma callback_handleClick: "callback (ClickCounter_handleClick now event s) = callback s"
  by (simp add: ClickCounter_handleClick_def Let_def)

lemmas cc_simps = getCount_def Let_def clicks_handleClick timeWindow_handleClick
  callback_handleClick calls_handleClick timeWindow_new clicks_new callback_new calls_new

text \<open>
  Claim C1, as the code has it. With a window of 1000 and clicks recorded at times 0, 100
  and 200, a read at time 250 returns 3, and a read at time 1050 returns 2, whether or not
  the read at 250 came before: only the click at 0 is 1000 or more old, the clicks at 100
  and 200 are 950 and 850 old. The count is still 1 at time 1199 and is 0 from time 1200 on.
  Likewise, after clicks at
  \<open>t\<close>, \<open>t + 1\<close> and \<open>t + window - 1\<close>, a read at \<open>t + window + 1\<close> returns 1 when the window
  is greater than 2 (the last click is then 2 old), and 0 when the window is 1 or 2.
\<close>

theorem sliding_window_counts:
  "snd (getCount 250 (record_clicks [(0, e1), (100, e2), (200, e3)] (ClickCounter_new (JsNumber 1000) cb))) = 3
    \<and> snd (getCount 1050 (record_clicks [(0, e1), (100, e2), (200, e3)] (ClickCounter_new (JsNumber 1000) cb))) = 2
    \<and> snd (getCount 1050 (fst (getCount 250
          (record_clicks [(0, e1), (100, e2), (200, e3)] (ClickCounter_new (JsNumber 1000) cb))))) = 2
    \<and> snd (getCount 1199 (record_clicks [(0, e1), (100, e2), (200, e3)] (ClickCounter_new (JsNumber 1000) cb))) = 1
    \<and> (1200 \<le> now \<longrightarrow>
          snd (getCount now
            (record_clicks [(0, e1), (100, e2), (200, e3)] (ClickCounter_new (JsNumber 1000) cb))) = 0)
    \<and> (2 < w \<longrightarrow>
          snd (getCount (t + w + 1)
            (record_clicks [(t, e1), (t + 1, e2), (t + w - 1, e3)] (ClickCounter_new (JsNumber w) cb))) = 1)
    \<and> (0 < w \<and> w \<le> 2 \<longrightarrow>
          snd (getCount (t + w + 1)
            (record_clicks [(t, e1), (t + 1, e2), (t + w - 1, e3)] (ClickCounter_new (JsNumber w) cb))) = 0)"
  by (simp add: cc_simps)

text \<open>The theorem at a read at time 1200, and at windows 10 and 2 with clicks starting at time 5.\<close>

theorem sliding_window_counts_witness:
  "snd (getCount 1050 (record_clicks [(0, ()), (100, ()), (200, ())] (ClickCounter_new (JsNumber 1000) True))) = 2
   \<and> (1200::int) \<le> 1200
   \<and> snd (getCount 1200 (record_clicks [(0, ()), (100, ()), (200, ())] (ClickCounter_new (JsNumber 1000) True))) = 0
   \<and> (2::int) < 10
   \<and> snd (getCount 16 (record_clicks [(5, ()), (6, ()), (14, ())] (ClickCounter_new (JsNumber 10) True))) = 1
   \<and> snd (getCount 8 (record_clicks [(5, ()), (6, ()), (6, ())] (ClickCounter_new (JsNumber 2) True))) = 0"
  using sliding_window_counts [where ?e1.0 = "()" and ?e2.0 = "()" and ?e3.0 = "()" and cb = True
      and w = 10 and t = 5 and now = 1200]
    sliding_window_counts [where ?e1.0 = "()" and ?e2.0 = "()" and ?e3.0 = "()" and cb = True
      and w = 2 and t = 5 and now = 1200]
  by simp

text \<open>
  Claim C1 as it is written fails on both of its examples: the read at 1050 returns 2, not
  0, and with window 1000 and \<open>t = 0\<close> (clicks at 0, 1 and 999) the read at 1001 returns 1,
  not 0.
\<close>

theorem read_at_1050_counts_two:
  "snd (getCount 1050
     (record_clicks [(0, ()), (100, ()), (200, ())] (ClickCounter_new (JsNumber 1000) False))) = 2
   \<and> snd (getCount 1050
     (record_clicks [(0, ()), (100, ()), (200, ())] (ClickCounter_new (JsNumber 1000) False))) \<noteq> 0
   \<and> snd (getCount 1001
     (record_clicks [(0, ()), (1, ()), (999, ())] (ClickCounter_new (JsNumber 1000) False))) = 1
   \<and> snd (getCount 1001
     (record_clicks [(0, ()), (1, ()), (999, ())] (ClickCounter_new (JsNumber 1000) False))) \<noteq> 0"
  by (simp add: cc_simps)

text \<open>
  Claim C2. Recording a click at time \<open>now\<close> leaves the log equal to the old log without the
  entries that have \<open>now - timestamp \<ge> window\<close>, followed by \<open>now\<close>; the window and the
  callback are unchanged. With a strictly positive window this is also the old log with
  \<open>now\<close> appended first and the expired entries removed afterwards (the order of the spec's
  contract), since the new entry is 0 old. When a callback is registered it is called once
  more, inside the handler, with the length of the resulting log and the event; when none is
  registered nothing is called. A read with \<open>getCount\<close> calls nothing.
\<close>

theorem handleClick_log:
  "clicks (ClickCounter_handleClick now event s) =
       filter (\<lambda>time. \<not> (now - time \<ge> timeWindow s)) (clicks s) @ [now]
   \<and> (0 < timeWindow s \<longrightarrow>
        clicks (ClickCounter_handleClick now event s) =
          filter (\<lambda>time. \<not> (now - time \<ge> timeWindow s)) (clicks s @ [now]))
   \<and> timeWindow (ClickCounter_handleClick now event s) = timeWindow s
   \<and> callback (ClickCounter_handleClick now event s) = callback s
   \<and> (callback s \<longrightarrow>
        calls (ClickCounter_handleClick now event s) =
          calls s @ [(length (clicks (ClickCounter_handleClick now event s)), event)])
   \<and> (\<not> callback s \<longrightarrow> calls (ClickCounter_handleClick now event s) = calls s)
   \<and> calls (fst (getCount now' s)) = calls s"
  by (simp add: ClickCounter_handleClick_def getCount_def Let_def not_le)

text \<open>
  The theorem on a counter with window 1000 and clicks at 0 and 100, at a click at time
  1050 with event 7: once with a callback, once without.
\<close>

theorem handleClick_log_witness:
  "(0::int) < timeWindow (record_clicks [(0, 5), (100, 6)] (ClickCounter_new (JsNumber 1000) True :: nat ClickCounter))
   \<and> callback (record_clicks [(0, 5), (100, 6)] (ClickCounter_new (JsNumber 1000) True :: nat ClickCounter))
   \<and> clicks (ClickCounter_handleClick 1050 7
        (record_clicks [(0, 5), (100, 6)] (ClickCounter_new (JsNumber 1000) True :: nat ClickCounter))) = [100, 1050]
   \<and> calls (ClickCounter_handleClick 1050 7
        (record_clicks [(0, 5), (100, 6)] (ClickCounter_new (JsNumber 1000) True :: nat ClickCounter))) =
        [(1, 5), (2, 6), (2, 7)]
   \<and> \<not> callback (record_clicks [(0, 5), (100, 6)] (ClickCounter_new (JsNumber 1000) False :: nat ClickCounter))
   \<and> calls (ClickCounter_handleClick 1050 7
        (record_clicks [(0, 5), (100, 6)] (ClickCounter_new (JsNumber 1000) False :: nat ClickCounter))) = []"
  using handleClick_log [of 1050 7
      "record_clicks [(0, 5), (100, 6)] (ClickCounter_new (JsNumber 1000) True :: nat ClickCounter)"]
    handleClick_log [of 1050 7
      "record_clicks [(0, 5), (100, 6)] (ClickCounter_new (JsNumber 1000) False :: nat ClickCounter)"]
  by (simp add: cc_simps)

text \<open>
  Claim C3. After a read at time \<open>now\<close>, every timestamp left in the log has
  \<open>now - timestamp < window\<close>; the read changes nothing but the log, from which it removes
  exactly the entries that are not younger than the window, and it returns the number of
  entries left. The read does this itself, with no click needed, and reading again at the
  same time changes nothing more and returns the same count.
\<close>

theorem getCount_evicts:
  "(\<forall>time \<in> set (clicks (fst (getCount now s))). now - time < timeWindow (fst (getCount now s)))
   \<and> fst (getCount now s) = s\<lparr>clicks := filter (\<lambda>time. now - time < timeWindow s) (clicks s)\<rparr>
   \<and> snd (getCount now s) = length (filter (\<lambda>time. now - time < timeWindow s) (clicks s))
   \<and> getCount now (fst (getCount now s)) = getCount now s"
  by (simp add: getCount_def Let_def)

text \<open>The theorem on the log \<open>[0, 100, 200]\<close> with window 1000, read at time 1050.\<close>

theorem getCount_evicts_witness:
  "clicks (fst (getCount 1050
      (record_clicks [(0, ()), (100, ()), (200, ())] (ClickCounter_new (JsNumber 1000) True)))) = [100, 200]
   \<and> (1050::int) - 100 < 1000 \<and> (1050::int) - 200 < 1000
   \<and> getCount 1050 (fst (getCount 1050
        (record_clicks [(0, ()), (100, ()), (200, ())] (ClickCounter_new (JsNumber 1000) True)))) =
      getCount 1050 (record_clicks [(0, ()), (100, ()), (200, ())] (ClickCounter_new (JsNumber 1000) True))"
  using getCount_evicts [of 1050
      "record_clicks [(0, ()), (100, ()), (200, ())] (ClickCounter_new (JsNumber 1000) True)"]
  by (simp add: cc_simps)

text \<open>
  Claim C10. When \<^verbatim>\<open>options.timeWindow\<close> is 0, or another falsy value, or absent, the
  constructor still returns a counter, and its window is 2000: every later click and every
  later read keeps exactly the entries less than 2000 old.
\<close>

theorem falsy_timeWindow_default:
  "falsy opt \<Longrightarrow>
     timeWindow (ClickCounter_new opt cb :: 'e ClickCounter) = 2000
     \<and> clicks (ClickCounter_handleClick now event (record_clicks cs (ClickCounter_new opt cb))) =
         filter (\<lambda>time. now - time < 2000) (clicks (record_clicks cs (ClickCounter_new opt cb))) @ [now]
     \<and> getCount now (record_clicks cs (ClickCounter_new opt cb)) =
         ((record_clicks cs (ClickCounter_new opt cb))
            \<lparr>clicks := filter (\<lambda>time. now - time < 2000) (clicks (record_clicks cs (ClickCounter_new opt cb)))\<rparr>,
          length (filter (\<lambda>time. now - time < 2000) (clicks (record_clicks cs (ClickCounter_new opt cb)))))"
  by (cases opt) (simp_all add: cc_simps timeWindow_record_clicks)

text \<open>
  The theorem at a window of 0: a click at time 0 is still counted at time 1999 and no
  longer at time 2000.
\<close>

theorem falsy_timeWindow_default_witness:
  "falsy (JsNumber 0)
   \<and> timeWindow (ClickCounter_new (JsNumber 0) True :: unit ClickCounter) = 2000
   \<and> snd (getCount 1999 (record_clicks [(0, ())] (ClickCounter_new (JsNumber 0) True))) = 1
   \<and> snd (getCount 2000 (record_clicks [(0, ())] (ClickCounter_new (JsNumber 0) True))) = 0"
  using falsy_timeWindow_default [of "JsNumber 0" True 1999 "()" "[(0, ())]"]
    falsy_timeWindow_default [of "JsNumber 0" True 2000 "()" "[(0, ())]"]
  by (simp add: cc_simps)

section \<open>Properties of DragAndDrop\<close>

lemma remove_all_listeners:
  "L - {Element_mousedown} - {Document_mousemove} - {Document_mouseup} = ({} :: dd_listener set)"
  using dd_listener.exhaust by auto

lemma stop_eq: "DragAndDrop_stop s = (s\<lparr>listeners := {}\<rparr>, [])"
  by (simp add: DragAndDrop_stop_def Let_def remove_all_listeners)

lemmas dd_simps = DragAndDrop_new_def DragAndDrop_start_def DragAndDrop_handleMouseDown_def
  DragAndDrop_handleMouseMove_def DragAndDrop_handleMouseUp_def observers_def Let_def

text \<open>
  Where \<^verbatim>\<open>stop()\<close> is called matters for what follows it. Called between two events, it
  leaves a tracker that no input reaches. Called from inside \<^verbatim>\<open>onStart\<close>, it is followed
  by the rest of the press handler, which registers the two document listeners: the drag
  then goes on, and the move and the release call \<^verbatim>\<open>onDrag\<close> and \<^verbatim>\<open>onEnd\<close>.
\<close>

lemma dispatch_no_listeners: "listeners s = {} \<Longrightarrow> DragAndDrop_dispatch cbs i s = (s, [])"
  by (cases i) simp_all

lemma run_no_listeners: "listeners s = {} \<Longrightarrow> DragAndDrop_run cbs inputs s = (s, [])"
  by (induction inputs) (simp_all add: dispatch_no_listeners)

lemma stop_between_events:
  "DragAndDrop_run cbs inputs (fst (DragAndDrop_stop s)) = (fst (DragAndDrop_stop s), [])"
  by (simp add: stop_eq run_no_listeners)

lemma stop_inside_onStart:
  "DragAndDrop_run (observers\<lparr>onStart := Some (\<lambda>event pos. DragAndDrop_stop)\<rparr>)
      [Press \<lparr>clientX = 5, clientY = 5, button = 0\<rparr>,
       Move \<lparr>clientX = 15, clientY = 5, button = 0\<rparr>,
       Release \<lparr>clientX = 15, clientY = 5, button = 0\<rparr>]
      DragAndDrop_new =
     (\<lparr>isDragging = False, startPos = (5, 5), currentPos = (15, 5), listeners = {}\<rparr>,
      [OnStart \<lparr>clientX = 5, clientY = 5, button = 0\<rparr> (5, 5),
       OnDrag \<lparr>clientX = 15, clientY = 5, button = 0\<rparr> (15, 5) (10, 0),
       OnEnd \<lparr>clientX = 15, clientY = 5, button = 0\<rparr> (15, 5) (10, 0)])"
  by (auto simp add: dd_simps stop_eq)

text \<open>
  Claim C4, as the code has it. \<^verbatim>\<open>stop()\<close>, called on the tracker in any state, removes
  its three listener registrations and calls no callback, \<^verbatim>\<open>onEnd\<close> included. It changes no
  field: it does not end a drag in progress, \<^verbatim>\<open>isDragging\<close> stays as it is (true in the
  middle of a drag) and the start and current positions stay.
\<close>

theorem stop_detaches_all:
  "listeners (fst (DragAndDrop_stop s)) = {}
   \<and> snd (DragAndDrop_stop s) = []
   \<and> fst (DragAndDrop_stop s) = s\<lparr>listeners := {}\<rparr>
   \<and> isDragging (fst (DragAndDrop_stop s)) = isDragging s
   \<and> startPos (fst (DragAndDrop_stop s)) = startPos s
   \<and> currentPos (fst (DragAndDrop_stop s)) = currentPos s"
  by (simp add: stop_eq)

text \<open>The theorem on a tracker stopped after a press at (5,5).\<close>

theorem stop_detaches_all_witness:
  "fst (DragAndDrop_dispatch observers
      (Press \<lparr>clientX = 5, clientY = 5, button = 0\<rparr>) DragAndDrop_new) =
     \<lparr>isDragging = True, startPos = (5, 5), currentPos = (5, 5),
      listeners = {Document_mouseup, Document_mousemove, Element_mousedown}\<rparr>
   \<and> DragAndDrop_stop (fst (DragAndDrop_dispatch observers
      (Press \<lparr>clientX = 5, clientY = 5, button = 0\<rparr>) DragAndDrop_new)) =
     (\<lparr>isDragging = True, startPos = (5, 5), currentPos = (5, 5), listeners = {}\<rparr>, [])"
  using stop_detaches_all [of "fst (DragAndDrop_dispatch observers
      (Press \<lparr>clientX = 5, clientY = 5, button = 0\<rparr>) DragAndDrop_new)"]
  by (simp add: stop_eq dd_simps)

text \<open>
  Claim C4 as it is written fails: after a press at (5,5) and \<^verbatim>\<open>stop()\<close>, the tracker is
  not idle. \<^verbatim>\<open>isDragging\<close> is still true, and the move handler, called on this object, still
  reports a drag that started at (5,5).
\<close>

theorem stop_mid_drag_keeps_session:
  "isDragging (fst (DragAndDrop_stop (fst (DragAndDrop_dispatch observers
      (Press \<lparr>clientX = 5, clientY = 5, button = 0\<rparr>) DragAndDrop_new))))
   \<and> snd (DragAndDrop_handleMouseMove observers \<lparr>clientX = 15, clientY = 5, button = 0\<rparr>
        (fst (DragAndDrop_stop (fst (DragAndDrop_dispatch observers
          (Press \<lparr>clientX = 5, clientY = 5, button = 0\<rparr>) DragAndDrop_new))))) =
       [OnDrag \<lparr>clientX = 15, clientY = 5, button = 0\<rparr> (15, 5) (10, 0)]"
  by (simp add: stop_eq dd_simps)

text \<open>
  Claim C5. On a tracker with all three callbacks, a press at (5,5), a move to (15,5) and
  a release call \<^verbatim>\<open>onStart\<close> once with (5,5), then \<^verbatim>\<open>onDrag\<close> once with position (15,5) and
  delta (10,0), then \<^verbatim>\<open>onEnd\<close> once with delta (10,0), and nothing else; a move after the
  release adds no call and changes nothing. In general, while \<^verbatim>\<open>isDragging\<close> is false the
  move and release handlers return the object unchanged and call nothing, whatever the
  callbacks are, whether the handlers are called directly or through a registered listener.
\<close>

theorem press_move_release:
  "DragAndDrop_run observers
      [Press \<lparr>clientX = 5, clientY = 5, button = b1\<rparr>,
       Move \<lparr>clientX = 15, clientY = 5, button = b2\<rparr>,
       Release up]
      DragAndDrop_new =
     (\<lparr>isDragging = False, startPos = (5, 5), currentPos = (15, 5),
       listeners = {Element_mousedown}\<rparr>,
      [OnStart \<lparr>clientX = 5, clientY = 5, button = b1\<rparr> (5, 5),
       OnDrag \<lparr>clientX = 15, clientY = 5, button = b2\<rparr> (15, 5) (10, 0),
       OnEnd up (15, 5) (10, 0)])
   \<and> DragAndDrop_run observers
      [Press \<lparr>clientX = 5, clientY = 5, button = b1\<rparr>,
       Move \<lparr>clientX = 15, clientY = 5, button = b2\<rparr>,
       Release up, Move later]
      DragAndDrop_new =
     (\<lparr>isDragging = False, startPos = (5, 5), currentPos = (15, 5),
       listeners = {Element_mousedown}\<rparr>,
      [OnStart \<lparr>clientX = 5, clientY = 5, button = b1\<rparr> (5, 5),
       OnDrag \<lparr>clientX = 15, clientY = 5, button = b2\<rparr> (15, 5) (10, 0),
       OnEnd up (15, 5) (10, 0)])
   \<and> (\<not> isDragging s \<longrightarrow>
        DragAndDrop_handleMouseMove cbs event s = (s, [])
        \<and> DragAndDrop_handleMouseUp cbs event s = (s, [])
        \<and> DragAndDrop_dispatch cbs (Move event) s = (s, [])
        \<and> DragAndDrop_dispatch cbs (Release event) s = (s, []))"
  by (auto simp add: dd_simps)

text \<open>The theorem on a new tracker, which is not dragging.\<close>

theorem press_move_release_witness:
  "\<not> isDragging DragAndDrop_new
   \<and> DragAndDrop_handleMouseMove observers \<lparr>clientX = 15, clientY = 5, button = 0\<rparr> DragAndDrop_new
       = (DragAndDrop_new, [])
   \<and> DragAndDrop_handleMouseUp observers \<lparr>clientX = 15, clientY = 5, button = 0\<rparr> DragAndDrop_new
       = (DragAndDrop_new, [])
   \<and> snd (DragAndDrop_run observers
      [Press \<lparr>clientX = 5, clientY = 5, button = 0\<rparr>,
       Move \<lparr>clientX = 15, clientY = 5, button = 0\<rparr>,
       Release \<lparr>clientX = 15, clientY = 5, button = 0\<rparr>,
       Move \<lparr>clientX = 20, clientY = 9, button = 0\<rparr>]
      DragAndDrop_new) =
      [OnStart \<lparr>clientX = 5, clientY = 5, button = 0\<rparr> (5, 5),
       OnDrag \<lparr>clientX = 15, clientY = 5, button = 0\<rparr> (15, 5) (10, 0),
       OnEnd \<lparr>clientX = 15, clientY = 5, button = 0\<rparr> (15, 5) (10, 0)]"
  using press_move_release [where ?b1.0 = 0 and ?b2.0 = 0
      and up = "\<lparr>clientX = 15, clientY = 5, button = 0\<rparr>"
      and later = "\<lparr>clientX = 20, clientY = 9, button = 0\<rparr>" and s = DragAndDrop_new
      and cbs = observers and event = "\<lparr>clientX = 15, clientY = 5, button = 0\<rparr>"]
  by (simp add: DragAndDrop_new_def DragAndDrop_start_def)

section \<open>Properties of MouseButtons\<close>

lemmas mb_simps = MouseButtons_handleMouseDown_def MouseButtons_handleMouseUp_def
  MouseButtons_new_def isPressed_def

text \<open>
  Claim C8. A press with button index 0, 1 or 2 sets the flag \<open>left\<close>, \<open>middle\<close> or \<open>right\<close>
  and a release clears it, the other two flags staying as they are; with any other index
  the press and the release leave the state unchanged. \<^verbatim>\<open>isPressed\<close> reads the flag of the
  name it is given. So on a new tracker a press and then a release of index 2 make
  \<^verbatim>\<open>isPressed('right')\<close> true and then false, and \<^verbatim>\<open>isPressed('middle')\<close> is false before,
  between and after.
\<close>

theorem buttons_track_three:
  "(button event = 0 \<longrightarrow>
      MouseButtons_handleMouseDown event s = s\<lparr>left := True\<rparr>
      \<and> MouseButtons_handleMouseUp event s = s\<lparr>left := False\<rparr>)
   \<and> (button event = 1 \<longrightarrow>
      MouseButtons_handleMouseDown event s = s\<lparr>middle := True\<rparr>
      \<and> MouseButtons_handleMouseUp event s = s\<lparr>middle := False\<rparr>)
   \<and> (button event = 2 \<longrightarrow>
      MouseButtons_handleMouseDown event s = s\<lparr>right := True\<rparr>
      \<and> MouseButtons_handleMouseUp event s = s\<lparr>right := False\<rparr>)
   \<and> (button event \<noteq> 0 \<and> button event \<noteq> 1 \<and> button event \<noteq> 2 \<longrightarrow>
      MouseButtons_handleMouseDown event s = s \<and> MouseButtons_handleMouseUp event s = s)
   \<and> isPressed ''left'' s = left s \<and> isPressed ''middle'' s = middle s
   \<and> isPressed ''right'' s = right s
   \<and> (button event = 2 \<longrightarrow>
      \<not> isPressed ''middle'' MouseButtons_new
      \<and> isPressed ''right'' (MouseButtons_handleMouseDown event MouseButtons_new)
      \<and> \<not> isPressed ''middle'' (MouseButtons_handleMouseDown event MouseButtons_new)
      \<and> \<not> isPressed ''right''
            (MouseButtons_handleMouseUp event (MouseButtons_handleMouseDown event MouseButtons_new))
      \<and> \<not> isPressed ''middle''
            (MouseButtons_handleMouseUp event (MouseButtons_handleMouseDown event MouseButtons_new)))"
  by (simp add: mb_simps)

text \<open>The theorem at the button indices 2, 3, 0 and 1, on a new tracker.\<close>

theorem buttons_track_three_witness:
  "button \<lparr>clientX = 0 :: real, clientY = 0, button = 2\<rparr> = 2
   \<and> isPressed ''right''
        (MouseButtons_handleMouseDown \<lparr>clientX = 0 :: real, clientY = 0, button = 2\<rparr> MouseButtons_new)
   \<and> MouseButtons_handleMouseUp \<lparr>clientX = 0 :: real, clientY = 0, button = 2\<rparr>
        (MouseButtons_handleMouseDown \<lparr>clientX = 0 :: real, clientY = 0, button = 2\<rparr> MouseButtons_new)
       = MouseButtons_new
   \<and> button \<lparr>clientX = 0 :: real, clientY = 0, button = 3\<rparr> \<noteq> 0
   \<and> button \<lparr>clientX = 0 :: real, clientY = 0, button = 3\<rparr> \<noteq> 1
   \<and> button \<lparr>clientX = 0 :: real, clientY = 0, button = 3\<rparr> \<noteq> 2
   \<and> MouseButtons_handleMouseDown \<lparr>clientX = 0 :: real, clientY = 0, button = 3\<rparr> MouseButtons_new
       = MouseButtons_new
   \<and> MouseButtons_handleMouseDown \<lparr>clientX = 0 :: real, clientY = 0, button = 0\<rparr> MouseButtons_new
       = \<lparr>left = True, right = False, middle = False\<rparr>
   \<and> MouseButtons_handleMouseDown \<lparr>clientX = 0 :: real, clientY = 0, button = 1\<rparr> MouseButtons_new
       = \<lparr>left = False, right = False, middle = True\<rparr>"
  using buttons_track_three [of "\<lparr>clientX = 0 :: real, clientY = 0, button = 2\<rparr>" MouseButtons_new]
    buttons_track_three [of "\<lparr>clientX = 0 :: real, clientY = 0, button = 3\<rparr>" MouseButtons_new]
    buttons_track_three [of "\<lparr>clientX = 0 :: real, clientY = 0, button = 0\<rparr>" MouseButtons_new]
    buttons_track_three [of "\<lparr>clientX = 0 :: real, clientY = 0, button = 1\<rparr>" MouseButtons_new]
  by (simp add: mb_simps)

section \<open>Properties of the MovementTracker\<close>

text \<open>
  The angle function of the exact arithmetic is the angle of the point: it lies in
  \<open>(-\<pi>, \<pi>]\<close>, and a point other than the origin is its distance from the origin times the
  cosine and the sine of that angle.
\<close>

lemma arctan_neg_one: "arctan (- 1) = - (pi / 4)"
  by (simp add: arctan_minus arctan_one)

lemma exact_atan2_examples:
  "exact_atan2 0 10 = 0" "exact_atan2 10 (- 10) = 3 * pi / 4" "exact_atan2 10 0 = pi / 2"
  by (simp_all add: exact_atan2_def arctan_neg_one)

lemma exact_atan2_range: "- pi < exact_atan2 y x \<and> exact_atan2 y x \<le> pi"
proof -
  have a: "- (pi / 2) < arctan (y / x)" "arctan (y / x) < pi / 2"
    by (rule arctan_lbound, rule arctan_ubound)
  have p: "0 < pi" by simp
  consider "0 < x" | "x < 0" "0 \<le> y" | "x < 0" "y < 0" | "x = 0" "0 < y" | "x = 0" "y < 0"
    | "x = 0" "y = 0"
    by linarith
  then show ?thesis
  proof cases
    case 1
    then have "exact_atan2 y x = arctan (y / x)" by (simp add: exact_atan2_def)
    with a p show ?thesis by linarith
  next
    case 2
    then have "y / x \<le> 0" by (simp add: divide_nonneg_neg)
    then have "arctan (y / x) \<le> 0" by simp
    moreover from 2 have "exact_atan2 y x = arctan (y / x) + pi" by (simp add: exact_atan2_def)
    ultimately show ?thesis using a p by linarith
  next
    case 3
    then have "0 < y / x" by (simp add: divide_neg_neg)
    then have "0 < arctan (y / x)" by simp
    moreover from 3 have "exact_atan2 y x = arctan (y / x) - pi" by (simp add: exact_atan2_def)
    ultimately show ?thesis using a p by linarith
  next
    case 4
    then have "exact_atan2 y x = pi / 2" by (simp add: exact_atan2_def)
    with p show ?thesis by linarith
  next
    case 5
    then have "exact_atan2 y x = - (pi / 2)" by (simp add: exact_atan2_def)
    with p show ?thesis by linarith
  next
    case 6
    then have "exact_atan2 y x = 0" by (simp add: exact_atan2_def)
    with p show ?thesis by linarith
  qed
qed

lemma exact_atan2_polar:
  assumes "x \<noteq> 0 \<or> y \<noteq> 0"
  shows "x = sqrt (x\<^sup>2 + y\<^sup>2) * cos (exact_atan2 y x) \<and> y = sqrt (x\<^sup>2 + y\<^sup>2) * sin (exact_atan2 y x)"
proof (cases "x = 0")
  case True
  with assms have "y \<noteq> 0" by simp
  with True show ?thesis by (auto simp add: exact_atan2_def)
next
  case False
  have q: "sqrt (x\<^sup>2 + y\<^sup>2) = \<bar>x\<bar> * sqrt (1 + (y / x)\<^sup>2)"
  proof -
    have "x\<^sup>2 + y\<^sup>2 = x\<^sup>2 * (1 + (y / x)\<^sup>2)"
      using False by (simp add: field_simps power2_eq_square)
    then show ?thesis by (simp add: real_sqrt_mult)
  qed
  have pos: "0 < sqrt (1 + (y / x)\<^sup>2)"
    by (simp add: add_pos_nonneg)
  show ?thesis
  proof (cases "0 < x")
    case True
    then show ?thesis using pos
      by (simp add: exact_atan2_def q cos_arctan sin_arctan)
  next
    case False
    with \<open>x \<noteq> 0\<close> have "x < 0" by simp
    then show ?thesis using pos
      by (simp add: exact_atan2_def q cos_arctan sin_arctan)
  qed
qed

lemma sqrt_tenth: "sqrt (1 / 100) = 1 / 10"
  by (rule real_sqrt_unique) (simp_all add: power2_eq_square)

lemmas mt_simps = MovementTracker_handleMove_def MovementTracker_new_def Let_def

text \<open>
  Claim C6. When the clock reads the same at a move event as at the event before
  (\<open>deltaTime = 0\<close>), the handler calls nothing and leaves the velocity as it was, and it
  stores the event's coordinates and the time as the last position and the last time. The
  second of two events handled at the same time is always in this case. No arithmetic on
  numbers is done on this path, so this holds in every arithmetic.
\<close>

theorem zero_deltaTime_skips_emission:
  "(now - lastTime s = 0 \<longrightarrow>
      MovementTracker_handleMove ar now event s =
        (s\<lparr>lastPos := (clientX event, clientY event), lastTime := now\<rparr>, []))
   \<and> MovementTracker_handleMove ar now event2 (fst (MovementTracker_handleMove ar now event1 s)) =
        ((fst (MovementTracker_handleMove ar now event1 s))
           \<lparr>lastPos := (clientX event2, clientY event2), lastTime := now\<rparr>, [])
   \<and> velocity (fst (MovementTracker_handleMove ar now event2
          (fst (MovementTracker_handleMove ar now event1 s))))
       = velocity (fst (MovementTracker_handleMove ar now event1 s))
   \<and> lastPos (fst (MovementTracker_handleMove ar now event2
          (fst (MovementTracker_handleMove ar now event1 s))))
       = (clientX event2, clientY event2)
   \<and> lastTime (fst (MovementTracker_handleMove ar now event2
          (fst (MovementTracker_handleMove ar now event1 s))))
       = now"
  by (simp add: mt_simps split_def)

text \<open>
  The theorem on a tracker created at time 0 that has handled a move to (10,0) at time
  100, at a second move, to (3,4), at time 100.
\<close>

theorem zero_deltaTime_skips_emission_witness:
  "(100::int) - lastTime (fst (MovementTracker_handleMove exact 100
        \<lparr>clientX = 10, clientY = 0, button = 0\<rparr> (MovementTracker_new exact 0 True))) = 0
   \<and> MovementTracker_handleMove exact 100 \<lparr>clientX = 3, clientY = 4, button = 0\<rparr>
       (fst (MovementTracker_handleMove exact 100 \<lparr>clientX = 10, clientY = 0, button = 0\<rparr>
        (MovementTracker_new exact 0 True))) =
      (\<lparr>mt_callback = True, lastPos = (3, 4), lastTime = 100, velocity = (1 / 10, 0)\<rparr>, [])"
  using zero_deltaTime_skips_emission [of 100
      "fst (MovementTracker_handleMove exact 100 \<lparr>clientX = 10, clientY = 0, button = 0\<rparr>
        (MovementTracker_new exact 0 True))" exact "\<lparr>clientX = 3, clientY = 4, button = 0\<rparr>"]
  by (simp add: mt_simps exact_def)

text \<open>
  Claim C7, as the code has it. In every arithmetic: at a move event with
  \<open>deltaTime > 0\<close> the tracker stores the velocity \<open>deltaPosition / deltaTime\<close>, component by
  component, and, when a callback is registered, calls it once with that velocity, with the
  speed \<^verbatim>\<open>Math.sqrt(vx ** 2 + vy ** 2)\<close>, with the angle
  \<^verbatim>\<open>Math.atan2(deltaY, deltaX) * (180 / Math.PI)\<close> and with the event's position; the deltas
  are taken from the last position stored. So after a move from (0,0) to (10,0), the move
  to (0,10) passes \<open>deltaY = 10 - 0\<close> and \<open>deltaX = 0 - 10\<close> to \<^verbatim>\<open>Math.atan2\<close>: its angle is
  that of the delta (-10, 10), not that of (0, 10).

  In the exact arithmetic: the move from (0,0) to (10,0) over 100 time units gives velocity
  (0.1, 0), speed 0.1 and angle 0; the next move, to (0,10) over 100 time units, gives
  angle 135; it is a move from (0,0) to (0,10) that gives angle 90. (In doubles the same
  three moves give 0.1, 0, 0.1, 0 and the angles 135 and 90 as well.)
\<close>

theorem move_emits_velocity:
  "(0 < now - lastTime s \<longrightarrow>
      getVelocity (fst (MovementTracker_handleMove ar now event s)) =
         (num_div ar (num_sub ar (clientX event) (fst (lastPos s))) (num_lit ar (now - lastTime s)),
          num_div ar (num_sub ar (clientY event) (snd (lastPos s))) (num_lit ar (now - lastTime s)))
      \<and> (mt_callback s \<longrightarrow>
          snd (MovementTracker_handleMove ar now event s) =
           [\<lparr>data_velocity =
               (num_div ar (num_sub ar (clientX event) (fst (lastPos s))) (num_lit ar (now - lastTime s)),
                num_div ar (num_sub ar (clientY event) (snd (lastPos s))) (num_lit ar (now - lastTime s))),
             data_speed =
               Math_sqrt ar (num_add ar
                 (num_square ar (num_div ar (num_sub ar (clientX event) (fst (lastPos s)))
                    (num_lit ar (now - lastTime s))))
                 (num_square ar (num_div ar (num_sub ar (clientY event) (snd (lastPos s)))
                    (num_lit ar (now - lastTime s))))),
             data_angle =
               num_mul ar
                 (Math_atan2 ar (num_sub ar (clientY event) (snd (lastPos s)))
                    (num_sub ar (clientX event) (fst (lastPos s))))
                 (num_div ar (num_lit ar 180) (Math_PI ar)),
             data_position = (clientX event, clientY event)\<rparr>])
      \<and> (\<not> mt_callback s \<longrightarrow> snd (MovementTracker_handleMove ar now event s) = []))
  \<and> map data_angle
      (snd (MovementTracker_handleMove ar (t0 + 200)
         \<lparr>clientX = num_lit ar 0, clientY = num_lit ar 10, button = b\<rparr>
         (fst (MovementTracker_handleMove ar (t0 + 100)
            \<lparr>clientX = num_lit ar 10, clientY = num_lit ar 0, button = b\<rparr>
            (MovementTracker_new ar t0 True))))) =
     [num_mul ar
        (Math_atan2 ar (num_sub ar (num_lit ar 10) (num_lit ar 0))
           (num_sub ar (num_lit ar 0) (num_lit ar 10)))
        (num_div ar (num_lit ar 180) (Math_PI ar))]
  \<and> snd (MovementTracker_handleMove exact (t0 + 100) \<lparr>clientX = 10, clientY = 0, button = b\<rparr>
      (MovementTracker_new exact t0 True)) =
     [\<lparr>data_velocity = (1 / 10, 0), data_speed = 1 / 10, data_angle = 0, data_position = (10, 0)\<rparr>]
  \<and> map data_angle
      (snd (MovementTracker_handleMove exact (t0 + 200) \<lparr>clientX = 0, clientY = 10, button = b\<rparr>
         (fst (MovementTracker_handleMove exact (t0 + 100) \<lparr>clientX = 10, clientY = 0, button = b\<rparr>
            (MovementTracker_new exact t0 True))))) = [135]
  \<and> map data_angle
      (snd (MovementTracker_handleMove exact (t0 + 100) \<lparr>clientX = 0, clientY = 10, button = b\<rparr>
         (MovementTracker_new exact t0 True))) = [90]"
proof -
  have general: "0 < now - lastTime s \<longrightarrow>
      getVelocity (fst (MovementTracker_handleMove ar now event s)) =
         (num_div ar (num_sub ar (clientX event) (fst (lastPos s))) (num_lit ar (now - lastTime s)),
          num_div ar (num_sub ar (clientY event) (snd (lastPos s))) (num_lit ar (now - lastTime s)))
      \<and> (mt_callback s \<longrightarrow>
          snd (MovementTracker_handleMove ar now event s) =
           [\<lparr>data_velocity =
               (num_div ar (num_sub ar (clientX event) (fst (lastPos s))) (num_lit ar (now - lastTime s)),
                num_div ar (num_sub ar (clientY event) (snd (lastPos s))) (num_lit ar (now - lastTime s))),
             data_speed =
               Math_sqrt ar (num_add ar
                 (num_square ar (num_div ar (num_sub ar (clientX event) (fst (lastPos s)))
                    (num_lit ar (now - lastTime s))))
                 (num_square ar (num_div ar (num_sub ar (clientY event) (snd (lastPos s)))
                    (num_lit ar (now - lastTime s))))),
             data_angle =
               num_mul ar
                 (Math_atan2 ar (num_sub ar (clientY event) (snd (lastPos s)))
                    (num_sub ar (clientX event) (fst (lastPos s))))
                 (num_div ar (num_lit ar 180) (Math_PI ar)),
             data_position = (clientX event, clientY event)\<rparr>])
      \<and> (\<not> mt_callback s \<longrightarrow> snd (MovementTracker_handleMove ar now event s) = [])"
    by (simp add: mt_simps split_def getVelocity_def)
  have deltas: "map data_angle
      (snd (MovementTracker_handleMove ar (t0 + 200)
         \<lparr>clientX = num_lit ar 0, clientY = num_lit ar 10, button = b\<rparr>
         (fst (MovementTracker_handleMove ar (t0 + 100)
            \<lparr>clientX = num_lit ar 10, clientY = num_lit ar 0, button = b\<rparr>
            (MovementTracker_new ar t0 True))))) =
     [num_mul ar
        (Math_atan2 ar (num_sub ar (num_lit ar 10) (num_lit ar 0))
           (num_sub ar (num_lit ar 0) (num_lit ar 10)))
        (num_div ar (num_lit ar 180) (Math_PI ar))]"
    by (simp add: mt_simps)
  have examples: "snd (MovementTracker_handleMove exact (t0 + 100) \<lparr>clientX = 10, clientY = 0, button = b\<rparr>
      (MovementTracker_new exact t0 True)) =
     [\<lparr>data_velocity = (1 / 10, 0), data_speed = 1 / 10, data_angle = 0, data_position = (10, 0)\<rparr>]
  \<and> map data_angle
      (snd (MovementTracker_handleMove exact (t0 + 200) \<lparr>clientX = 0, clientY = 10, button = b\<rparr>
         (fst (MovementTracker_handleMove exact (t0 + 100) \<lparr>clientX = 10, clientY = 0, button = b\<rparr>
            (MovementTracker_new exact t0 True))))) = [135]
  \<and> map data_angle
      (snd (MovementTracker_handleMove exact (t0 + 100) \<lparr>clientX = 0, clientY = 10, button = b\<rparr>
         (MovementTracker_new exact t0 True))) = [90]"
    by (simp add: mt_simps exact_def exact_atan2_examples power2_eq_square sqrt_tenth)
  from general deltas examples show ?thesis by blast
qed

text \<open>
  The theorem in the exact arithmetic, on a tracker created at time 0 with a callback, at
  a move to (10,0) at time 100, and on one without a callback.
\<close>

theorem move_emits_velocity_witness:
  "(0::int) < 100 - lastTime (MovementTracker_new exact 0 True)
   \<and> mt_callback (MovementTracker_new exact 0 True)
   \<and> snd (MovementTracker_handleMove exact 100 \<lparr>clientX = 10, clientY = 0, button = 0\<rparr>
        (MovementTracker_new exact 0 True)) =
       [\<lparr>data_velocity = (1 / 10, 0), data_speed = 1 / 10, data_angle = 0, data_position = (10, 0)\<rparr>]
   \<and> \<not> mt_callback (MovementTracker_new exact 0 False)
   \<and> MovementTracker_handleMove exact 100 \<lparr>clientX = 10, clientY = 0, button = 0\<rparr>
        (MovementTracker_new exact 0 False) =
       (\<lparr>mt_callback = False, lastPos = (10, 0), lastTime = 100, velocity = (1 / 10, 0)\<rparr>, [])"
  using move_emits_velocity [of 100 "MovementTracker_new exact 0 True" exact
      "\<lparr>clientX = 10, clientY = 0, button = 0\<rparr>" 0 0]
    move_emits_velocity [of 100 "MovementTracker_new exact 0 False" exact
      "\<lparr>clientX = 10, clientY = 0, button = 0\<rparr>" 0 0]
  by (simp add: mt_simps exact_def)

text \<open>
  Claim C7 as it is written fails on its last example: after the move from (0,0) to
  (10,0), the move to (0,10) has delta (-10, 10), and the angle passed to the callback is
  135 degrees, not 90. The two subtractions are exact in doubles too, and there as well
  the angle is 135.
\<close>

theorem subsequent_move_angle_135:
  "map data_angle (snd (MovementTracker_handleMove exact 200 \<lparr>clientX = 0, clientY = 10, button = 0\<rparr>
      (fst (MovementTracker_handleMove exact 100 \<lparr>clientX = 10, clientY = 0, button = 0\<rparr>
      (MovementTracker_new exact 0 True))))) = [135]
   \<and> map data_angle (snd (MovementTracker_handleMove exact 200 \<lparr>clientX = 0, clientY = 10, button = 0\<rparr>
      (fst (MovementTracker_handleMove exact 100 \<lparr>clientX = 10, clientY = 0, button = 0\<rparr>
      (MovementTracker_new exact 0 True))))) \<noteq> [90]"
  by (simp add: mt_simps exact_def exact_atan2_examples)

section \<open>Properties of the CustomCursor\<close>

lemmas cur_simps = CustomCursor_handleMove_def CustomCursor_update_def Let_def

text \<open>
  Claim C9. In every arithmetic: a move event sets the target to the mouse position plus
  the offset (\<^verbatim>\<open>clientX + offset.x\<close>, \<^verbatim>\<open>clientY + offset.y\<close>). With smoothing disabled the
  same handler sets the current position to that target and updates the cursor element
  with it, before it returns. With smoothing enabled the handler does no more than set
  the target, and a tick replaces each component of the current position by
  \<^verbatim>\<open>current + (target - current) * 0.3\<close>, then updates the cursor element with the new
  position, then requests the next frame; a tick after a move so moves toward the mouse
  position plus the offset.
\<close>

theorem cursor_follow:
  "(\<not> smooth s \<longrightarrow>
      CustomCursor_handleMove ar event s =
        (s\<lparr>targetPos := (num_add ar (clientX event) (fst (offset s)),
                          num_add ar (clientY event) (snd (offset s))),
           cursor_currentPos := (num_add ar (clientX event) (fst (offset s)),
                                 num_add ar (clientY event) (snd (offset s)))\<rparr>,
         [UpdateCursor (num_add ar (clientX event) (fst (offset s)),
                        num_add ar (clientY event) (snd (offset s)))]))
   \<and> (smooth s \<longrightarrow>
      CustomCursor_handleMove ar event s =
        (s\<lparr>targetPos := (num_add ar (clientX event) (fst (offset s)),
                          num_add ar (clientY event) (snd (offset s)))\<rparr>, [])
      \<and> CustomCursor_update ar handle s =
        (s\<lparr>cursor_currentPos :=
             (num_add ar (fst (cursor_currentPos s))
                (num_mul ar (num_sub ar (fst (targetPos s)) (fst (cursor_currentPos s))) (lit_0_3 ar)),
              num_add ar (snd (cursor_currentPos s))
                (num_mul ar (num_sub ar (snd (targetPos s)) (snd (cursor_currentPos s))) (lit_0_3 ar))),
           animationFrame := Some handle\<rparr>,
         [UpdateCursor
            (num_add ar (fst (cursor_currentPos s))
               (num_mul ar (num_sub ar (fst (targetPos s)) (fst (cursor_currentPos s))) (lit_0_3 ar)),
             num_add ar (snd (cursor_currentPos s))
               (num_mul ar (num_sub ar (snd (targetPos s)) (snd (cursor_currentPos s))) (lit_0_3 ar))),
          RequestAnimationFrame])
      \<and> snd (CustomCursor_update ar handle (fst (CustomCursor_handleMove ar event s))) =
         [UpdateCursor
            (num_add ar (fst (cursor_currentPos s))
               (num_mul ar (num_sub ar (num_add ar (clientX event) (fst (offset s)))
                  (fst (cursor_currentPos s))) (lit_0_3 ar)),
             num_add ar (snd (cursor_currentPos s))
               (num_mul ar (num_sub ar (num_add ar (clientY event) (snd (offset s)))
                  (snd (cursor_currentPos s))) (lit_0_3 ar))),
          RequestAnimationFrame])"
  by (simp add: cur_simps)

text \<open>
  The theorem in the exact arithmetic: on a follower without smoothing and with offset
  (1,2), at a move to (10,20); and on a smooth follower at (0,10) with offset (0,0), at a
  move to (10,0) and at the tick after it. (In doubles the values are the same: 11 and 22,
  and 0 + (10 - 0) * 0.3 = 3, 10 + (0 - 10) * 0.3 = 7.)
\<close>

theorem cursor_follow_witness:
  "\<not> smooth \<lparr>smooth = False, offset = (1 :: real, 2), cursor_currentPos = (0, 0), targetPos = (0, 0),
       animationFrame = None\<rparr>
   \<and> CustomCursor_handleMove exact \<lparr>clientX = 10, clientY = 20, button = 0\<rparr>
        \<lparr>smooth = False, offset = (1, 2), cursor_currentPos = (0, 0), targetPos = (0, 0),
         animationFrame = None\<rparr> =
       (\<lparr>smooth = False, offset = (1, 2), cursor_currentPos = (11, 22), targetPos = (11, 22),
         animationFrame = None\<rparr>, [UpdateCursor (11, 22)])
   \<and> smooth \<lparr>smooth = True, offset = (0 :: real, 0), cursor_currentPos = (0, 10), targetPos = (0, 10),
       animationFrame = Some 1\<rparr>
   \<and> CustomCursor_handleMove exact \<lparr>clientX = 10, clientY = 0, button = 0\<rparr>
        \<lparr>smooth = True, offset = (0, 0), cursor_currentPos = (0, 10), targetPos = (0, 10),
         animationFrame = Some 1\<rparr> =
       (\<lparr>smooth = True, offset = (0, 0), cursor_currentPos = (0, 10), targetPos = (10, 0),
         animationFrame = Some 1\<rparr>, [])
   \<and> CustomCursor_update exact 2
        \<lparr>smooth = True, offset = (0, 0), cursor_currentPos = (0, 10), targetPos = (10, 0),
         animationFrame = Some 1\<rparr> =
       (\<lparr>smooth = True, offset = (0, 0), cursor_currentPos = (3, 7), targetPos = (10, 0),
         animationFrame = Some 2\<rparr>, [UpdateCursor (3, 7), RequestAnimationFrame])"
  using cursor_follow [of "\<lparr>smooth = False, offset = (1, 2), cursor_currentPos = (0, 0), targetPos = (0, 0),
       animationFrame = None\<rparr>" exact "\<lparr>clientX = 10, clientY = 20, button = 0\<rparr>" 2]
    cursor_follow [of "\<lparr>smooth = True, offset = (0, 0), cursor_currentPos = (0, 10), targetPos = (0, 10),
       animationFrame = Some 1\<rparr>" exact "\<lparr>clientX = 10, clientY = 0, button = 0\<rparr>" 2]
    cursor_follow [of "\<lparr>smooth = True, offset = (0, 0), cursor_currentPos = (0, 10), targetPos = (10, 0),
       animationFrame = Some 1\<rparr>" exact "\<lparr>clientX = 10, clientY = 0, button = 0\<rparr>" 2]
  by (simp add: exact_def)

end
